theory Spec2Isabelle
  imports Main "HOL-Library.AList" "HOL-Library.Sublist"
begin

section \<open>Data model\<close>

subsection \<open>Numbers and positions\<close>

text \<open>
  A JavaScript number as far as the position arithmetic needs it: an integer or NaN.
  Positions are mathematical integers; the rounding of doubles beyond 2^53 is outside
  the model.
\<close>

datatype number = Fin int | NaN

text \<open>\<^verbatim>\<open>flowKey: string | number\<close> of the interface \<^verbatim>\<open>SmsCookie\<close>.\<close>

datatype FlowKey = KeyNum number | KeyStr string

text \<open>
  \<^verbatim>\<open>Number(state.flowKey)\<close>. On a number it is the identity. What it makes of a string
  is the language's numeric-literal grammar; it is the parameter \<open>N\<close> here, so that
  every statement below holds for whatever a string converts to.
\<close>

fun Number :: "(string \<Rightarrow> number) \<Rightarrow> FlowKey \<Rightarrow> number" where
  "Number N (KeyNum n) = n"
| "Number N (KeyStr s) = N s"

text \<open>\<^verbatim>\<open>x + 1\<close> on numbers: NaN stays NaN.\<close>

fun plus1 :: "number \<Rightarrow> number" where
  "plus1 (Fin i) = Fin (i + 1)"
| "plus1 NaN = NaN"

text \<open>\<^verbatim>\<open>x === flow.length\<close>: NaN equals nothing.\<close>

fun equals_length :: "number \<Rightarrow> nat \<Rightarrow> bool" where
  "equals_length (Fin i) n = (i = int n)"
| "equals_length NaN n = False"

subsection \<open>Actions\<close>

text \<open>
  The action classes live in \<^verbatim>\<open>src/Actions\<close>, which is not among the sources. An action
  is modelled by what the controller and the cookie functions read from it: its
  \<^verbatim>\<open>name\<close>, its constructor, and per constructor the fields that are read
  (\<^verbatim>\<open>trigger.flowName\<close>; \<^verbatim>\<open>question.isAnswered\<close>, \<^verbatim>\<open>question.isFailed\<close>,
  \<^verbatim>\<open>question[QuestionShouldContinueOnFail]\<close>, \<^verbatim>\<open>question.sid\<close>; the body given to
  \<^verbatim>\<open>new Exit(body)\<close>).
\<close>

record QuestionState =
  isAnswered :: bool
  isFailed :: bool
  shouldContinueOnFail :: bool
  sid :: "string list option"

datatype Constructor =
    Message
  | Reply
  | Exit string
  | Trigger string
  | Question QuestionState

text \<open>
  The name is \<open>None\<close> while it is \<^verbatim>\<open>undefined\<close>: the flow that produced the action
  assigns it (\<^verbatim>\<open>action[ActionSetName]\<close>).
\<close>

record Action =
  action_name :: "string option"
  constructor :: Constructor

text \<open>
  A context snapshot (\<^verbatim>\<open>ActionContext\<close>, \<^verbatim>\<open>QuestionContext\<close>). Two of its properties are
  written by the cookie functions and are fields of their own: \<^verbatim>\<open>messageSid\<close> (a
  \<^verbatim>\<open>string[]\<close>) and \<^verbatim>\<open>flowName\<close>. Every other property is kept in \<open>props\<close>.
\<close>

record ActionContext =
  props :: "(string \<times> string) list"
  messageSid :: "string list option"
  flowName :: "string option"

text \<open>\<^verbatim>\<open>FlowContext = { [index: string]: ActionContext }\<close>: an object, keys in insertion order.\<close>

type_synonym FlowContext = "(string \<times> ActionContext) list"

type_synonym InteractionContext = "ActionContext list"

subsection \<open>The cookie\<close>

record QuestionSub =
  attempts :: "string list"
  isAnswering :: bool

text \<open>
  The interface \<^verbatim>\<open>SmsCookie\<close>. \<open>createdAt\<close> is the date as a time stamp; \<open>flow\<close> is
  \<open>None\<close> for \<^verbatim>\<open>null\<close>; the field \<^verbatim>\<open>from\<close> is written \<open>from'\<close>.
\<close>

record SmsCookie =
  createdAt :: int
  from' :: string
  flow :: "string option"
  flowContext :: FlowContext
  flowKey :: FlowKey
  interactionContext :: InteractionContext
  interactionComplete :: bool
  interactionId :: string
  isComplete :: bool
  question :: QuestionSub

text \<open>Of the request, the two fields of \<^verbatim>\<open>req.body\<close> that are read.\<close>

record TwilioWebhookRequest =
  Body :: string
  From :: string

subsection \<open>Errors\<close>

datatype error =
    InvalidFlowName string
      \<comment> \<open>TypeError: Received invalid flow name in SMS cookie\<close>
  | UnknownActionName string "string option"
      \<comment> \<open>Error: Flow ... does not have an action named ...\<close>
  | TriggerWithoutSchema
      \<comment> \<open>Error: Cannot use Trigger action without a defined Flow schema\<close>
  | TriggerUnknownFlow
      \<comment> \<open>Error: Trigger constructors expect a name of an existing Flow\<close>
  | UndefinedReceiver
      \<comment> \<open>the runtime's TypeError for a method call on \<^verbatim>\<open>undefined\<close>\<close>
  | ResolverFailure string
      \<comment> \<open>a rejection of a user-supplied resolver\<close>

subsection \<open>Flows and the controller\<close>

text \<open>
  A resolver gets the flow context and the user context. It may reject; it may return
  something that is not an \<^verbatim>\<open>Action\<close> (\<open>None\<close>).
\<close>

type_synonym 'u Resolver = "FlowContext \<Rightarrow> 'u \<Rightarrow> error + Action option"

text \<open>
  The class \<^verbatim>\<open>Flow\<close> (\<^verbatim>\<open>src/Flows/Flow\<close>) is not among the sources. A flow is its name
  and its ordered steps, each an action name with a resolver. Flows are objects and
  \<^verbatim>\<open>===\<close> compares their identity, not their contents: \<open>oid\<close> is that identity.
\<close>

record 'u Flow =
  oid :: nat
  name :: string
  steps :: "(string \<times> 'u Resolver) list"

text \<open>\<^verbatim>\<open>a === b\<close> on flows.\<close>

definition same_object :: "'u Flow \<Rightarrow> 'u Flow \<Rightarrow> bool" where
  "same_object a b = (oid a = oid b)"

text \<open>Modelled from the spec: \<^verbatim>\<open>Flow.length\<close>, the number of steps (class Flow is missing).\<close>

definition flow_length :: "'u Flow \<Rightarrow> nat" where
  "flow_length f = length (steps f)"

text \<open>
  Modelled from the spec: \<^verbatim>\<open>flow[FlowActionNames].has(n)\<close>, membership in the set of
  declared names (class Flow is missing). An undefined name is no member.
\<close>

fun has_action_name :: "'u Flow \<Rightarrow> string option \<Rightarrow> bool" where
  "has_action_name f None = False"
| "has_action_name f (Some n) = (n \<in> set (map fst (steps f)))"

text \<open>
  The controller: the root flow, the evaluated schema (a \<^verbatim>\<open>Map\<close> from flow name to flow,
  \<open>None\<close> when no schema was given) and the exit test. The list stands for the map
  that \<open>map_of\<close> reads from it. The constructor rejects an exit test that is not a
  function, so there always is one.
\<close>

record 'u FlowController =
  root :: "'u Flow"
  schema :: "(string \<times> 'u Flow) list option"
  testForExit :: "string \<Rightarrow> bool"

section \<open>The cookie functions (SmsCookie/index.ts)\<close>

text \<open>
  \<^verbatim>\<open>updateContext\<close> assigns to a field of the cookie it is given, so cookies are objects
  in a store and are passed by address. An object literal allocates a new cell.
\<close>

type_synonym heap = "SmsCookie list"

type_synonym ref = nat

definition alloc :: "heap \<Rightarrow> SmsCookie \<Rightarrow> heap \<times> ref" where
  "alloc h c = (h @ [c], length h)"

definition addQuestionAttempt :: "heap \<Rightarrow> ref \<Rightarrow> string \<Rightarrow> heap \<times> ref" where
  "addQuestionAttempt h state attempt =
     alloc h ((h ! state)\<lparr>question :=
       (question (h ! state))\<lparr>attempts := attempts (question (h ! state)) @ [attempt]\<rparr>\<rparr>)"

definition completeInteraction :: "heap \<Rightarrow> ref \<Rightarrow> heap \<times> ref" where
  "completeInteraction h state = alloc h ((h ! state)\<lparr>isComplete := True\<rparr>)"

text \<open>The date and the unique string are inputs.\<close>

definition createSmsCookie :: "int \<Rightarrow> string \<Rightarrow> TwilioWebhookRequest \<Rightarrow> SmsCookie" where
  "createSmsCookie now uid req =
     \<lparr>createdAt = now, from' = From req, flow = None, flowContext = [],
      flowKey = KeyNum (Fin 0), interactionContext = [], interactionComplete = False,
      interactionId = uid, isComplete = False,
      question = \<lparr>attempts = [], isAnswering = False\<rparr>\<rparr>"

definition handleTrigger :: "heap \<Rightarrow> ref \<Rightarrow> string \<Rightarrow> heap \<times> ref" where
  "handleTrigger h state target =
     alloc h ((h ! state)\<lparr>flow := Some target, flowKey := KeyNum (Fin 0), flowContext := []\<rparr>)"

definition incrementFlowAction ::
  "(string \<Rightarrow> number) \<Rightarrow> heap \<Rightarrow> ref \<Rightarrow> 'u Flow \<Rightarrow> heap \<times> ref" where
  "incrementFlowAction N h state fl =
     (let (h1, newState) = alloc h (h ! state);
          k = plus1 (Number N (flowKey (h ! state)));
          h2 = h1[newState := (h1 ! newState)\<lparr>flowKey := KeyNum k\<rparr>]
      in if equals_length k (flow_length fl) then completeInteraction h2 state
         else (h2, newState))"

definition startQuestion :: "heap \<Rightarrow> ref \<Rightarrow> heap \<times> ref" where
  "startQuestion h state =
     alloc h ((h ! state)\<lparr>question := \<lparr>attempts = [], isAnswering = True\<rparr>\<rparr>)"

text \<open>
  A call ends with the store it leaves behind and either the exception it threw or the
  address of the cookie it returned.
\<close>

type_synonym SmsCookieUpdate = "heap \<Rightarrow> ref \<Rightarrow> heap \<times> (error + ref)"

fun returns_new :: "heap \<times> ref \<Rightarrow> heap \<times> (error + ref)" where
  "returns_new (h, r) = (h, Inr r)"

text \<open>A name used as a property key: \<^verbatim>\<open>undefined\<close> becomes the string.\<close>

fun property_key :: "string option \<Rightarrow> string" where
  "property_key None = ''undefined''"
| "property_key (Some n) = n"

text \<open>\<^verbatim>\<open>x || []\<close> on an optional array.\<close>

fun or_empty :: "string list option \<Rightarrow> string list" where
  "or_empty None = []"
| "or_empty (Some xs) = xs"

definition recordQuestionMessageSid ::
  "SmsCookie \<Rightarrow> string option \<Rightarrow> QuestionState \<Rightarrow> string list" where
  "recordQuestionMessageSid state qname q =
     (let prevSids =
            (case map_of (flowContext state) (property_key qname) of
               None \<Rightarrow> []
             | Some c \<Rightarrow> or_empty (messageSid c))
      in prevSids @ or_empty (sid q))"

text \<open>
  \<^verbatim>\<open>action[ActionGetContext]()\<close> is a method of the missing action classes: it is the
  parameter \<open>G\<close>.
\<close>

definition getActionContext ::
  "(Action \<Rightarrow> ActionContext) \<Rightarrow> SmsCookie \<Rightarrow> 'u Flow \<Rightarrow> Action \<Rightarrow> ActionContext" where
  "getActionContext G state fl action =
     (case constructor action of
        Question q \<Rightarrow>
          (G action)\<lparr>messageSid := Some (recordQuestionMessageSid state (action_name action) q)\<rparr>
      | _ \<Rightarrow> G action)"

text \<open>\<^verbatim>\<open>!state.flow\<close>: null, undefined or the empty string.\<close>

fun flow_unset :: "string option \<Rightarrow> bool" where
  "flow_unset None = True"
| "flow_unset (Some n) = (n = [])"

text \<open>
  \<^verbatim>\<open>updateContext\<close>. The parameter type \<^verbatim>\<open>SmsCookie\<close> has no null, and every call in the
  sources passes an object, so the guard \<^verbatim>\<open>if (!state) return null\<close> has no branch here.
  The assignment \<^verbatim>\<open>state.flow = flow.name\<close> writes into the cell of the argument, before
  the result is allocated.
\<close>

definition updateContext ::
  "(Action \<Rightarrow> ActionContext) \<Rightarrow> heap \<Rightarrow> ref \<Rightarrow> 'u Flow \<Rightarrow> Action \<Rightarrow> heap \<times> (error + ref)" where
  "updateContext G h state fl action =
     (if \<not> has_action_name fl (action_name action)
      then (h, Inl (UnknownActionName (name fl) (action_name action)))
      else
        let h1 = (if flow_unset (flow (h ! state))
                  then h[state := (h ! state)\<lparr>flow := Some (name fl)\<rparr>] else h);
            s = h1 ! state
        in returns_new (alloc h1 (s\<lparr>
             flowContext :=
               AList.update (property_key (action_name action))
                 (getActionContext G s fl action) (flowContext s),
             interactionContext :=
               interactionContext s @
                 [(getActionContext G s fl action)\<lparr>flowName := Some (name fl)\<rparr>]\<rparr>)))"

section \<open>The controller (Flows/Controller.ts)\<close>

text \<open>An update that cannot throw.\<close>

definition returns :: "(heap \<Rightarrow> ref \<Rightarrow> heap \<times> ref) \<Rightarrow> SmsCookieUpdate" where
  "returns f h state = returns_new (f h state)"

text \<open>
  Modelled from the spec: \<^verbatim>\<open>compose\<close> of \<^verbatim>\<open>src/util\<close>, which is not among the sources.
  Section 4.3 gives every branch in the order of the arguments ("record context, then
  complete"; "record context under the current flow, then reset"), so the updates are
  applied from left to right, each to the result of the one before; an exception ends
  the chain.
\<close>

fun pipeSmsCookieUpdates :: "SmsCookieUpdate list \<Rightarrow> SmsCookieUpdate" where
  "pipeSmsCookieUpdates [] h state = (h, Inr state)"
| "pipeSmsCookieUpdates (f # fs) h state =
     (case f h state of
        (h', Inl e) \<Rightarrow> (h', Inl e)
      | (h', Inr state') \<Rightarrow> pipeSmsCookieUpdates fs h' state')"

definition getCurrentFlow :: "'u FlowController \<Rightarrow> SmsCookie \<Rightarrow> error + 'u Flow" where
  "getCurrentFlow c state =
     (case flow state of
        None \<Rightarrow> Inr (root c)
      | Some n \<Rightarrow>
          (if flow_unset (Some n) \<or> n = name (root c) then Inr (root c)
           else
             (case schema c of
                None \<Rightarrow> Inl (InvalidFlowName n)
              | Some m \<Rightarrow>
                  (case map_of m n of
                     None \<Rightarrow> Inl (InvalidFlowName n)
                   | Some fl \<Rightarrow> Inr fl))))"

text \<open>\<^verbatim>\<open>this.schema.has(n)\<close>; the call throws when there is no schema.\<close>

definition schema_has :: "'u FlowController \<Rightarrow> string \<Rightarrow> error + bool" where
  "schema_has c n =
     (case schema c of
        None \<Rightarrow> Inl UndefinedReceiver
      | Some m \<Rightarrow> Inr (map_of m n \<noteq> None))"

subsection \<open>Resolving the action\<close>

text \<open>What \<^verbatim>\<open>resolveActionFromState\<close> calls, in order: the exit test, a step resolver, the
  question's evaluation.\<close>

datatype event =
    CalledTestForExit string
  | CalledResolver string string
  | CalledQuestionEvaluate

text \<open>
  Modelled from the spec: \<^verbatim>\<open>flow[FlowSelectActionResolver](key)\<close> and
  \<^verbatim>\<open>flow[FlowSelectActionName](key)\<close> of the missing class Flow: the step at the position,
  and nothing when the position is out of range.
\<close>

fun select_step :: "'u Flow \<Rightarrow> number \<Rightarrow> (string \<times> 'u Resolver) option" where
  "select_step fl NaN = None"
| "select_step fl (Fin i) =
     (if 0 \<le> i \<and> nat i < length (steps fl) then Some (steps fl ! nat i) else None)"

text \<open>
  Modelled from the spec: \<^verbatim>\<open>new Exit(body)\<close> (class Exit is missing). Names are assigned
  by the flow that produced the action, so a new Exit has none yet.
\<close>

definition new_Exit :: "string \<Rightarrow> Action" where
  "new_Exit body = \<lparr>action_name = None, constructor = Exit body\<rparr>"

text \<open>
  \<^verbatim>\<open>resolveActionFromState\<close>. \<^verbatim>\<open>action[QuestionEvaluate](req, state)\<close> is a method of the
  missing class Question that updates the question: it is the parameter \<open>E\<close>. The
  result is the log of calls and either the exception or the action (\<open>None\<close> for
  \<^verbatim>\<open>null\<close>).
\<close>

definition resolveActionFromState ::
  "(string \<Rightarrow> number) \<Rightarrow> (TwilioWebhookRequest \<Rightarrow> SmsCookie \<Rightarrow> QuestionState \<Rightarrow> QuestionState) \<Rightarrow>
   'u FlowController \<Rightarrow> TwilioWebhookRequest \<Rightarrow> SmsCookie \<Rightarrow> 'u \<Rightarrow>
   event list \<times> (error + Action option)" where
  "resolveActionFromState N E c req state userCtx =
     (if isComplete state then ([], Inr None)
      else if testForExit c (Body req)
      then ([CalledTestForExit (Body req)], Inr (Some (new_Exit (Body req))))
      else
        let log1 = [CalledTestForExit (Body req)];
            key = Number N (flowKey state)
        in case getCurrentFlow c state of
             Inl e \<Rightarrow> (log1, Inl e)
           | Inr currFlow \<Rightarrow>
               (case select_step currFlow key of
                  None \<Rightarrow> (log1, Inr None)
                | Some (step_name, resolveAction) \<Rightarrow>
                    (let log2 = log1 @ [CalledResolver (name currFlow) step_name]
                     in case resolveAction (flowContext state) userCtx of
                          Inl e \<Rightarrow> (log2, Inl e)
                        | Inr None \<Rightarrow> (log2, Inr None)
                        | Inr (Some action) \<Rightarrow>
                            (case constructor action of
                               Question q \<Rightarrow>
                                 (log2 @ [CalledQuestionEvaluate],
                                  Inr (Some (action\<lparr>constructor := Question (E req state q),
                                                    action_name := Some step_name\<rparr>)))
                             | _ \<Rightarrow> (log2, Inr (Some (action\<lparr>action_name := Some step_name\<rparr>)))))))"

subsection \<open>The next state\<close>

definition resolveNextStateFromAction ::
  "(string \<Rightarrow> number) \<Rightarrow> (Action \<Rightarrow> ActionContext) \<Rightarrow> 'u FlowController \<Rightarrow>
   heap \<Rightarrow> TwilioWebhookRequest \<Rightarrow> ref \<Rightarrow> Action option \<Rightarrow> heap \<times> (error + ref)" where
  "resolveNextStateFromAction N G c h req state action =
     (case getCurrentFlow c (h ! state) of
        Inl e \<Rightarrow> (h, Inl e)
      | Inr currFlow \<Rightarrow>
          (case action of
             None \<Rightarrow> returns_new (completeInteraction h state)
           | Some a \<Rightarrow>
               (case constructor a of
                  Exit b \<Rightarrow>
                    pipeSmsCookieUpdates
                      [(\<lambda>h s. updateContext G h s currFlow a),
                       returns completeInteraction] h state
                | Question q \<Rightarrow>
                    (let (h1, state1) =
                           (if isAnswering (question (h ! state))
                            then addQuestionAttempt h state (Body req) else (h, state))
                     in if isAnswered q
                        then pipeSmsCookieUpdates
                               [(\<lambda>h s. updateContext G h s currFlow a),
                                returns (\<lambda>h s. incrementFlowAction N h s currFlow)] h1 state1
                        else if isFailed q
                        then (if shouldContinueOnFail q
                              then pipeSmsCookieUpdates
                                     [(\<lambda>h s. updateContext G h s currFlow a),
                                      returns (\<lambda>h s. incrementFlowAction N h s currFlow)] h1 state1
                              else pipeSmsCookieUpdates
                                     [(\<lambda>h s. updateContext G h s currFlow a),
                                      returns completeInteraction] h1 state1)
                        else if isAnswering (question (h1 ! state1))
                        then updateContext G h1 state1 currFlow a
                        else pipeSmsCookieUpdates
                               [returns startQuestion,
                                (\<lambda>h s. updateContext G h s currFlow a)] h1 state1)
                | Trigger target \<Rightarrow>
                    (if same_object currFlow (root c) \<and> schema c = None then (h, Inl TriggerWithoutSchema)
                     else
                       (case (if target = name (root c) then Inr True else schema_has c target) of
                          Inl e \<Rightarrow> (h, Inl e)
                        | Inr False \<Rightarrow> (h, Inl TriggerUnknownFlow)
                        | Inr True \<Rightarrow>
                            pipeSmsCookieUpdates
                              [(\<lambda>h s. updateContext G h s currFlow a),
                               returns (\<lambda>h s. handleTrigger h s target)] h state))
                | _ \<Rightarrow>
                    pipeSmsCookieUpdates
                      [(\<lambda>h s. updateContext G h s currFlow a),
                       returns (\<lambda>h s. incrementFlowAction N h s currFlow)] h state)))"

text \<open>
  A sequence of calls, each on the state the one before returned; the first exception
  ends it.
\<close>

fun run ::
  "(string \<Rightarrow> number) \<Rightarrow> (Action \<Rightarrow> ActionContext) \<Rightarrow> 'u FlowController \<Rightarrow>
   heap \<Rightarrow> ref \<Rightarrow> (TwilioWebhookRequest \<times> Action option) list \<Rightarrow> heap \<times> (error + ref)" where
  "run N G c h state [] = (h, Inr state)"
| "run N G c h state ((req, action) # rest) =
     (case resolveNextStateFromAction N G c h req state action of
        (h', Inl e) \<Rightarrow> (h', Inl e)
      | (h', Inr state') \<Rightarrow> run N G c h' state' rest)"

text \<open>The cookie a call returned, read from the store it left; \<open>None\<close> when it threw.\<close>

fun returned :: "heap \<times> (error + ref) \<Rightarrow> SmsCookie option" where
  "returned (h, Inl e) = None"
| "returned (h, Inr r) = Some (h ! r)"

text \<open>The exception a call threw, if any.\<close>

fun thrown :: "heap \<times> (error + ref) \<Rightarrow> error option" where
  "thrown (h, Inl e) = Some e"
| "thrown (h, Inr r) = None"

section \<open>Concrete inputs\<close>

text \<open>
  A root flow of one step and one of two, a second flow, controllers without and with
  a schema, and a cookie as \<^verbatim>\<open>createSmsCookie\<close> makes it. The examples below evaluate the
  functions on them.
\<close>

definition ex_reply :: "unit Resolver" where
  "ex_reply ctx u = Inr (Some \<lparr>action_name = None, constructor = Reply\<rparr>)"

definition ex_root :: "unit Flow" where
  "ex_root = \<lparr>oid = 0, name = ''root'', steps = [(''greet'', ex_reply)]\<rparr>"

definition ex_long :: "unit Flow" where
  "ex_long = \<lparr>oid = 0, name = ''root'', steps = [(''greet'', ex_reply), (''bye'', ex_reply)]\<rparr>"

definition ex_help :: "unit Flow" where
  "ex_help = \<lparr>oid = 1, name = ''help'', steps = [(''info'', ex_reply)]\<rparr>"

definition ex_exit_test :: "string \<Rightarrow> bool" where
  "ex_exit_test body = (body = ''exit'')"

definition ex_plain :: "unit FlowController" where
  "ex_plain = \<lparr>root = ex_root, schema = None, testForExit = ex_exit_test\<rparr>"

definition ex_plain_long :: "unit FlowController" where
  "ex_plain_long = \<lparr>root = ex_long, schema = None, testForExit = ex_exit_test\<rparr>"

definition ex_with_schema :: "unit FlowController" where
  "ex_with_schema =
     \<lparr>root = ex_root, schema = Some [(''root'', ex_root), (''help'', ex_help)],
      testForExit = ex_exit_test\<rparr>"

definition ex_req :: "string \<Rightarrow> TwilioWebhookRequest" where
  "ex_req body = \<lparr>Body = body, From = ''+15550100''\<rparr>"

definition ex_fresh :: SmsCookie where
  "ex_fresh = createSmsCookie 0 ''id'' (ex_req ''hello'')"

definition ex_context :: "Action \<Rightarrow> ActionContext" where
  "ex_context a = \<lparr>props = [], messageSid = None, flowName = None\<rparr>"

definition ex_number :: "string \<Rightarrow> number" where
  "ex_number s = NaN"

definition ex_evaluate :: "TwilioWebhookRequest \<Rightarrow> SmsCookie \<Rightarrow> QuestionState \<Rightarrow> QuestionState" where
  "ex_evaluate req s q = q"

definition ex_action :: "string \<Rightarrow> Constructor \<Rightarrow> Action" where
  "ex_action n k = \<lparr>action_name = Some n, constructor = k\<rparr>"

section \<open>Properties\<close>

lemmas ex_defs = ex_reply_def ex_root_def ex_long_def ex_help_def ex_exit_test_def ex_plain_def
  ex_plain_long_def ex_with_schema_def ex_req_def ex_fresh_def ex_context_def ex_number_def
  ex_evaluate_def ex_action_def createSmsCookie_def

lemmas cookie_defs = alloc_def addQuestionAttempt_def completeInteraction_def handleTrigger_def
  incrementFlowAction_def startQuestion_def updateContext_def returns_def getActionContext_def
  recordQuestionMessageSid_def flow_length_def same_object_def

lemmas next_defs = resolveNextStateFromAction_def cookie_defs Let_def nth_append

subsection \<open>The current flow\<close>

text \<open>
  C7. If the state's flow name is unset (null or empty) or equals the root's name,
  \<^verbatim>\<open>getCurrentFlow\<close> returns the root flow. For any other name \<open>n\<close> it throws the
  invalid-flow-name error when there is no schema or the schema has no entry for \<open>n\<close>,
  and returns the schema's flow for \<open>n\<close> otherwise.
\<close>

theorem getCurrentFlow_cases:
  "(flow_unset (flow s) \<or> flow s = Some (name (root c)) \<longrightarrow> getCurrentFlow c s = Inr (root c)) \<and>
   (\<forall>n. flow s = Some n \<and> n \<noteq> [] \<and> n \<noteq> name (root c) \<longrightarrow>
      (case schema c of
         None \<Rightarrow> getCurrentFlow c s = Inl (InvalidFlowName n)
       | Some m \<Rightarrow>
          (case map_of m n of
             None \<Rightarrow> getCurrentFlow c s = Inl (InvalidFlowName n)
           | Some fl \<Rightarrow> getCurrentFlow c s = Inr fl)))"
  by (auto simp: getCurrentFlow_def split: option.splits)

text \<open>
  The five cases on concrete cookies: flow unset; the root's name; a name of the
  schema; a name the schema lacks; any other name without a schema.
\<close>

theorem getCurrentFlow_cases_witness:
  "getCurrentFlow ex_plain ex_fresh = Inr ex_root \<and>
   getCurrentFlow ex_with_schema (ex_fresh\<lparr>flow := Some ''root''\<rparr>) = Inr ex_root \<and>
   getCurrentFlow ex_with_schema (ex_fresh\<lparr>flow := Some ''help''\<rparr>) = Inr ex_help \<and>
   getCurrentFlow ex_with_schema (ex_fresh\<lparr>flow := Some ''gone''\<rparr>) = Inl (InvalidFlowName ''gone'') \<and>
   getCurrentFlow ex_plain (ex_fresh\<lparr>flow := Some ''help''\<rparr>) = Inl (InvalidFlowName ''help'')"
  using getCurrentFlow_cases [of ex_fresh ex_plain]
    getCurrentFlow_cases [of "ex_fresh\<lparr>flow := Some ''root''\<rparr>" ex_with_schema]
    getCurrentFlow_cases [of "ex_fresh\<lparr>flow := Some ''help''\<rparr>" ex_with_schema]
    getCurrentFlow_cases [of "ex_fresh\<lparr>flow := Some ''gone''\<rparr>" ex_with_schema]
    getCurrentFlow_cases [of "ex_fresh\<lparr>flow := Some ''help''\<rparr>" ex_plain]
  by (simp add: ex_defs)

subsection \<open>Resolving the action\<close>

text \<open>
  C8. For a state with \<open>isComplete = True\<close>, \<^verbatim>\<open>resolveActionFromState\<close> returns no
  action, for every controller (so whatever its exit test and flows), request, position
  and user context; it calls neither the exit test nor a resolver.
\<close>

theorem complete_state_resolves_no_action:
  "isComplete s \<Longrightarrow> resolveActionFromState N E c req s u = ([], Inr None)"
  by (simp add: resolveActionFromState_def)

text \<open>A complete cookie and a body the exit test accepts: still no action.\<close>

theorem complete_state_resolves_no_action_witness:
  "isComplete (ex_fresh\<lparr>isComplete := True\<rparr>) \<and>
   resolveActionFromState ex_number ex_evaluate ex_plain (ex_req ''exit'')
     (ex_fresh\<lparr>isComplete := True\<rparr>) () = ([], Inr None)"
  using complete_state_resolves_no_action
    [of "ex_fresh\<lparr>isComplete := True\<rparr>" ex_number ex_evaluate ex_plain "ex_req ''exit''" "()"]
  by simp

text \<open>
  C9. For a state that is not complete, if the exit test accepts the inbound body,
  \<^verbatim>\<open>resolveActionFromState\<close> returns an Exit action made from that body, whatever the
  flow and the position of the state; the only call it makes is the exit test, so no
  step resolver runs.
\<close>

theorem exit_test_short_circuits:
  assumes "\<not> isComplete s" and "testForExit c (Body req)"
  shows "resolveActionFromState N E c req s u =
           ([CalledTestForExit (Body req)], Inr (Some (new_Exit (Body req)))) \<and>
         constructor (new_Exit (Body req)) = Exit (Body req) \<and>
         (\<forall>f n. CalledResolver f n \<notin> set (fst (resolveActionFromState N E c req s u)))"
  using assms by (simp add: resolveActionFromState_def new_Exit_def)

text \<open>
  A cookie whose flow name does not resolve and whose position is out of range: the
  exit keyword still gives the Exit action.
\<close>

theorem exit_test_short_circuits_witness:
  "\<not> isComplete (ex_fresh\<lparr>flow := Some ''gone'', flowKey := KeyNum (Fin 7)\<rparr>) \<and>
   testForExit ex_plain (Body (ex_req ''exit'')) \<and>
   resolveActionFromState ex_number ex_evaluate ex_plain (ex_req ''exit'')
     (ex_fresh\<lparr>flow := Some ''gone'', flowKey := KeyNum (Fin 7)\<rparr>) () =
     ([CalledTestForExit ''exit''], Inr (Some \<lparr>action_name = None, constructor = Exit ''exit''\<rparr>))"
  using exit_test_short_circuits
    [of "ex_fresh\<lparr>flow := Some ''gone'', flowKey := KeyNum (Fin 7)\<rparr>" ex_plain "ex_req ''exit''"
        ex_number ex_evaluate "()"]
  by (simp add: ex_defs new_Exit_def)

subsection \<open>Advancing the position\<close>

text \<open>
  C10. \<^verbatim>\<open>incrementFlowAction(s, f)\<close>: if \<^verbatim>\<open>Number(s.flowKey) + 1\<close> equals \<^verbatim>\<open>f.length\<close>, the
  returned state is \<open>s\<close> with \<open>isComplete = True\<close> and nothing else changed, so its
  \<open>flowKey\<close> is the original one, not the incremented one. Otherwise the returned state
  is \<open>s\<close> with \<open>flowKey\<close> set to \<^verbatim>\<open>Number(s.flowKey) + 1\<close>, and \<open>isComplete\<close> as it was.
\<close>

theorem incrementFlowAction_cases:
  assumes "state < length h"
  shows "\<exists>s'. returned (returns_new (incrementFlowAction N h state fl)) = Some s' \<and>
     (if equals_length (plus1 (Number N (flowKey (h ! state)))) (flow_length fl)
      then s' = (h ! state)\<lparr>isComplete := True\<rparr> \<and> isComplete s' \<and> flowKey s' = flowKey (h ! state)
      else s' = (h ! state)\<lparr>flowKey := KeyNum (plus1 (Number N (flowKey (h ! state))))\<rparr> \<and>
           flowKey s' = KeyNum (plus1 (Number N (flowKey (h ! state)))) \<and>
           isComplete s' = isComplete (h ! state))"
  using assms by (simp add: cookie_defs Let_def nth_append)

text \<open>Position 0 of a one-step flow completes at position 0; of a two-step flow it moves to 1.\<close>

theorem incrementFlowAction_cases_witness:
  "(0::nat) < length [ex_fresh] \<and>
   returned (returns_new (incrementFlowAction ex_number [ex_fresh] 0 ex_root)) =
     Some (ex_fresh\<lparr>isComplete := True\<rparr>) \<and>
   returned (returns_new (incrementFlowAction ex_number [ex_fresh] 0 ex_long)) =
     Some (ex_fresh\<lparr>flowKey := KeyNum (Fin 1)\<rparr>)"
  using incrementFlowAction_cases [of 0 "[ex_fresh]" ex_number ex_root]
        incrementFlowAction_cases [of 0 "[ex_fresh]" ex_number ex_long]
  by (simp add: ex_defs flow_length_def)

subsection \<open>The next state\<close>

text \<open>
  C5. Let the state's flow resolve to \<open>fl\<close> and the state stand at the last index of
  \<open>fl\<close> (\<^verbatim>\<open>Number(flowKey) + 1\<close> equals the length). For a Reply or a Message that carries
  a name declared on \<open>fl\<close>, \<^verbatim>\<open>resolveNextStateFromAction\<close> returns a state with
  \<open>isComplete = True\<close>. The state does not loop back and no other flow is entered: the
  position is the one it had and the flow is still the current one.
\<close>

theorem last_step_completes:
  assumes "state < length h"
    and "getCurrentFlow c (h ! state) = Inr fl"
    and "constructor a = Reply \<or> constructor a = Message"
    and "has_action_name fl (action_name a)"
    and "equals_length (plus1 (Number N (flowKey (h ! state)))) (flow_length fl)"
  shows "\<exists>s'. returned (resolveNextStateFromAction N G c h req state (Some a)) = Some s'
           \<and> isComplete s' \<and> flowKey s' = flowKey (h ! state)
           \<and> flow s' = (if flow_unset (flow (h ! state)) then Some (name fl) else flow (h ! state))"
  using assms by (auto simp: next_defs)

text \<open>A Reply at position 0 of the one-step root flow.\<close>

theorem last_step_completes_witness:
  "(0::nat) < length [ex_fresh] \<and>
   getCurrentFlow ex_plain ([ex_fresh] ! 0) = Inr ex_root \<and>
   constructor (ex_action ''greet'' Reply) = Reply \<and>
   has_action_name ex_root (action_name (ex_action ''greet'' Reply)) \<and>
   equals_length (plus1 (Number ex_number (flowKey ([ex_fresh] ! 0)))) (flow_length ex_root) \<and>
   map_option isComplete (returned (resolveNextStateFromAction ex_number ex_context ex_plain [ex_fresh]
      (ex_req ''hi'') 0 (Some (ex_action ''greet'' Reply)))) = Some True"
  using last_step_completes [of 0 "[ex_fresh]" ex_plain ex_root "ex_action ''greet'' Reply"
      ex_number ex_context "ex_req ''hi''"]
  by (simp add: ex_defs next_defs getCurrentFlow_def)

text \<open>
  C3, as the claim has it, fails where the question is the last step of its flow: the
  answered question completes the interaction and the position stays. Here the state is
  answering at position 0 of the one-step root flow, and the returned position is 0.
\<close>

theorem answered_question_at_last_step_counterexample:
  "isAnswering (question (ex_fresh\<lparr>question := \<lparr>attempts = [], isAnswering = True\<rparr>\<rparr>)) \<and>
   flowKey (ex_fresh\<lparr>question := \<lparr>attempts = [], isAnswering = True\<rparr>\<rparr>) = KeyNum (Fin 0) \<and>
   map_option flowKey
     (returned (resolveNextStateFromAction ex_number ex_context ex_plain
        [ex_fresh\<lparr>question := \<lparr>attempts = [], isAnswering = True\<rparr>\<rparr>] (ex_req ''blue'') 0
        (Some (ex_action ''greet'' (Question \<lparr>isAnswered = True, isFailed = False,
           shouldContinueOnFail = False, sid = None\<rparr>))))) = Some (KeyNum (Fin 0))"
  by (simp add: ex_defs next_defs getCurrentFlow_def)

text \<open>
  C3, amended. Let the state's flow resolve to \<open>fl\<close> and the Question carry a name
  declared on \<open>fl\<close>. If the question is neither answered nor failed and the state is not
  answering, the returned state has \<open>isAnswering = True\<close>, no attempts, and the position
  of the input. If the question is answered and the state is answering, the returned
  state has exactly one more attempt, the inbound body, at the end; its position is
  \<^verbatim>\<open>Number(flowKey) + 1\<close>, unless that equals the length of \<open>fl\<close>: then the position is
  unchanged and \<open>isComplete = True\<close>.
\<close>

theorem question_start_then_answer:
  assumes "state < length h"
    and "getCurrentFlow c (h ! state) = Inr fl"
    and "constructor a = Question q"
    and "has_action_name fl (action_name a)"
  shows "(\<not> isAnswered q \<and> \<not> isFailed q \<and> \<not> isAnswering (question (h ! state)) \<longrightarrow>
          (\<exists>s'. returned (resolveNextStateFromAction N G c h req state (Some a)) = Some s'
             \<and> question s' = \<lparr>attempts = [], isAnswering = True\<rparr>
             \<and> flowKey s' = flowKey (h ! state))) \<and>
         (isAnswered q \<and> isAnswering (question (h ! state)) \<longrightarrow>
          (\<exists>s'. returned (resolveNextStateFromAction N G c h req state (Some a)) = Some s'
             \<and> attempts (question s') = attempts (question (h ! state)) @ [Body req]
             \<and> (if equals_length (plus1 (Number N (flowKey (h ! state)))) (flow_length fl)
                 then isComplete s' \<and> flowKey s' = flowKey (h ! state)
                 else flowKey s' = KeyNum (plus1 (Number N (flowKey (h ! state))))
                      \<and> isComplete s' = isComplete (h ! state))))"
  using assms by (auto simp: next_defs)

text \<open>
  On the two-step root flow: a pending question clears a stale attempt and starts
  answering; an answered one adds the body and moves from position 0 to 1.
\<close>

theorem question_start_then_answer_witness:
  "map_option question
     (returned (resolveNextStateFromAction ex_number ex_context ex_plain_long
        [ex_fresh\<lparr>question := \<lparr>attempts = [''stale''], isAnswering = False\<rparr>\<rparr>] (ex_req ''hi'') 0
        (Some (ex_action ''greet'' (Question \<lparr>isAnswered = False, isFailed = False,
           shouldContinueOnFail = False, sid = None\<rparr>))))) =
     Some \<lparr>attempts = [], isAnswering = True\<rparr> \<and>
   map_option (\<lambda>s. (attempts (question s), flowKey s, isComplete s))
     (returned (resolveNextStateFromAction ex_number ex_context ex_plain_long
        [ex_fresh\<lparr>question := \<lparr>attempts = [], isAnswering = True\<rparr>\<rparr>] (ex_req ''blue'') 0
        (Some (ex_action ''greet'' (Question \<lparr>isAnswered = True, isFailed = False,
           shouldContinueOnFail = False, sid = None\<rparr>))))) =
     Some ([''blue''], KeyNum (Fin 1), False)"
  using question_start_then_answer
      [of 0 "[ex_fresh\<lparr>question := \<lparr>attempts = [''stale''], isAnswering = False\<rparr>\<rparr>]"
          ex_plain_long ex_long
          "ex_action ''greet'' (Question \<lparr>isAnswered = False, isFailed = False,
             shouldContinueOnFail = False, sid = None\<rparr>)"
          "\<lparr>isAnswered = False, isFailed = False, shouldContinueOnFail = False, sid = None\<rparr>"
          ex_number ex_context "ex_req ''hi''"]
    question_start_then_answer
      [of 0 "[ex_fresh\<lparr>question := \<lparr>attempts = [], isAnswering = True\<rparr>\<rparr>]"
          ex_plain_long ex_long
          "ex_action ''greet'' (Question \<lparr>isAnswered = True, isFailed = False,
             shouldContinueOnFail = False, sid = None\<rparr>)"
          "\<lparr>isAnswered = True, isFailed = False, shouldContinueOnFail = False, sid = None\<rparr>"
          ex_number ex_context "ex_req ''blue''"]
  by (simp add: ex_defs next_defs getCurrentFlow_def)

text \<open>
  C4, as the claim has it, fails in the same place: a failed question that continues
  on fail, at position 0 of the one-step root flow, returns position 0, not 1.
\<close>

theorem failed_question_at_last_step_counterexample:
  "map_option flowKey
     (returned (resolveNextStateFromAction ex_number ex_context ex_plain [ex_fresh] (ex_req ''hi'') 0
        (Some (ex_action ''greet'' (Question \<lparr>isAnswered = False, isFailed = True,
           shouldContinueOnFail = True, sid = None\<rparr>))))) = Some (flowKey ex_fresh) \<and>
   flowKey ex_fresh = KeyNum (Fin 0)"
  by (simp add: ex_defs next_defs getCurrentFlow_def)

text \<open>
  C4, amended. Let the state's flow resolve to \<open>fl\<close> and the Question carry a name
  declared on \<open>fl\<close>, and let it be failed and not answered. The returned state has the
  question's context recorded: one entry more at the end of the interaction history,
  tagged with the name of \<open>fl\<close>, and the context under the action's name in the flow
  context. If \<open>continueOnFail\<close> is false it has \<open>isComplete = True\<close> and the position of
  the input. If \<open>continueOnFail\<close> is true its position is \<^verbatim>\<open>Number(flowKey) + 1\<close>, unless
  that equals the length of \<open>fl\<close>: then again the position is unchanged and
  \<open>isComplete = True\<close>.
\<close>

theorem failed_question:
  assumes "state < length h"
    and "getCurrentFlow c (h ! state) = Inr fl"
    and "constructor a = Question q"
    and "has_action_name fl (action_name a)"
    and "\<not> isAnswered q" and "isFailed q"
  shows "\<exists>s'. returned (resolveNextStateFromAction N G c h req state (Some a)) = Some s'
     \<and> interactionContext s' = interactionContext (h ! state) @
          [(getActionContext G (h ! state) fl a)\<lparr>flowName := Some (name fl)\<rparr>]
     \<and> map_of (flowContext s') (property_key (action_name a)) = Some (getActionContext G (h ! state) fl a)
     \<and> (if \<not> shouldContinueOnFail q
           \<or> equals_length (plus1 (Number N (flowKey (h ! state)))) (flow_length fl)
         then isComplete s' \<and> flowKey s' = flowKey (h ! state)
         else flowKey s' = KeyNum (plus1 (Number N (flowKey (h ! state))))
              \<and> isComplete s' = isComplete (h ! state))"
  using assms by (auto simp: next_defs update_conv')

text \<open>On the two-step root flow: without continue-on-fail, complete; with it, position 1.\<close>

theorem failed_question_witness:
  "map_option (\<lambda>s. (isComplete s, flowKey s, length (interactionContext s)))
     (returned (resolveNextStateFromAction ex_number ex_context ex_plain_long [ex_fresh] (ex_req ''hi'') 0
        (Some (ex_action ''greet'' (Question \<lparr>isAnswered = False, isFailed = True,
           shouldContinueOnFail = False, sid = None\<rparr>))))) = Some (True, KeyNum (Fin 0), 1) \<and>
   map_option (\<lambda>s. (isComplete s, flowKey s, length (interactionContext s)))
     (returned (resolveNextStateFromAction ex_number ex_context ex_plain_long [ex_fresh] (ex_req ''hi'') 0
        (Some (ex_action ''greet'' (Question \<lparr>isAnswered = False, isFailed = True,
           shouldContinueOnFail = True, sid = None\<rparr>))))) = Some (False, KeyNum (Fin 1), 1)"
  using failed_question
      [of 0 "[ex_fresh]" ex_plain_long ex_long
          "ex_action ''greet'' (Question \<lparr>isAnswered = False, isFailed = True,
             shouldContinueOnFail = False, sid = None\<rparr>)"
          "\<lparr>isAnswered = False, isFailed = True, shouldContinueOnFail = False, sid = None\<rparr>"
          ex_number ex_context "ex_req ''hi''"]
    failed_question
      [of 0 "[ex_fresh]" ex_plain_long ex_long
          "ex_action ''greet'' (Question \<lparr>isAnswered = False, isFailed = True,
             shouldContinueOnFail = True, sid = None\<rparr>)"
          "\<lparr>isAnswered = False, isFailed = True, shouldContinueOnFail = True, sid = None\<rparr>"
          ex_number ex_context "ex_req ''hi''"]
  by (simp add: ex_defs next_defs getCurrentFlow_def)

text \<open>
  C1, as the claim has it, fails for a controller without a schema: a Trigger whose
  target is the root's name, issued from the root with a name the root declares, throws
  "Cannot use Trigger action without a defined Flow schema".
\<close>

theorem trigger_to_root_without_schema_counterexample:
  "schema ex_plain = None \<and>
   name (root ex_plain) = ''root'' \<and>
   thrown (resolveNextStateFromAction ex_number ex_context ex_plain [ex_fresh] (ex_req ''hi'') 0
      (Some (ex_action ''greet'' (Trigger ''root'')))) = Some TriggerWithoutSchema"
  by (simp add: ex_defs next_defs getCurrentFlow_def)

text \<open>
  C1, amended. Let the state's flow resolve to \<open>fl\<close>. Without a schema every Trigger
  throws the no-schema error, also one whose target is the root's name. With a schema, a
  Trigger whose target is neither the root's name nor a name of the schema throws the
  unknown-flow error. With a schema and a target that is the root's name or a name of the
  schema, the call succeeds if the trigger's own name is declared on \<open>fl\<close> (and throws
  the unknown-action-name error of context recording if not); the returned state is the
  input with the flow set to the target, position 0, an empty flow context, and the
  interaction history of the input followed by one entry, the trigger's context tagged
  with the name of \<open>fl\<close>.
\<close>

theorem trigger_next_state:
  assumes "state < length h"
    and "getCurrentFlow c (h ! state) = Inr fl"
    and "constructor a = Trigger target"
  shows "(schema c = None \<longrightarrow>
            thrown (resolveNextStateFromAction N G c h req state (Some a)) = Some TriggerWithoutSchema) \<and>
         (\<forall>m. schema c = Some m \<and> target \<noteq> name (root c) \<and> map_of m target = None \<longrightarrow>
            thrown (resolveNextStateFromAction N G c h req state (Some a)) = Some TriggerUnknownFlow) \<and>
         (\<forall>m. schema c = Some m \<and> (target = name (root c) \<or> map_of m target \<noteq> None) \<longrightarrow>
            (if has_action_name fl (action_name a)
             then returned (resolveNextStateFromAction N G c h req state (Some a)) =
                    Some ((h ! state)\<lparr>flow := Some target, flowKey := KeyNum (Fin 0), flowContext := [],
                       interactionContext := interactionContext (h ! state) @
                         [(G a)\<lparr>flowName := Some (name fl)\<rparr>]\<rparr>)
             else thrown (resolveNextStateFromAction N G c h req state (Some a)) =
                    Some (UnknownActionName (name fl) (action_name a))))"
  using assms
  by (auto simp: next_defs schema_has_def getCurrentFlow_def split: option.splits if_splits)

text \<open>
  The cases in turn: no schema; a schema without the target; a jump from the root to a
  flow of the schema; a jump from that flow back to the root; a trigger whose name the
  current flow does not declare.
\<close>

theorem trigger_next_state_witness:
  "thrown (resolveNextStateFromAction ex_number ex_context ex_plain [ex_fresh] (ex_req ''hi'') 0
      (Some (ex_action ''greet'' (Trigger ''help'')))) = Some TriggerWithoutSchema \<and>
   thrown (resolveNextStateFromAction ex_number ex_context ex_with_schema [ex_fresh] (ex_req ''hi'') 0
      (Some (ex_action ''greet'' (Trigger ''gone'')))) = Some TriggerUnknownFlow \<and>
   returned (resolveNextStateFromAction ex_number ex_context ex_with_schema [ex_fresh] (ex_req ''hi'') 0
      (Some (ex_action ''greet'' (Trigger ''help'')))) =
     Some (ex_fresh\<lparr>flow := Some ''help'', flowKey := KeyNum (Fin 0), flowContext := [],
        interactionContext := [\<lparr>props = [], messageSid = None, flowName = Some ''root''\<rparr>]\<rparr>) \<and>
   returned (resolveNextStateFromAction ex_number ex_context ex_with_schema
      [ex_fresh\<lparr>flow := Some ''help''\<rparr>] (ex_req ''hi'') 0
      (Some (ex_action ''info'' (Trigger ''root'')))) =
     Some (ex_fresh\<lparr>flow := Some ''root'', flowKey := KeyNum (Fin 0), flowContext := [],
        interactionContext := [\<lparr>props = [], messageSid = None, flowName = Some ''help''\<rparr>]\<rparr>) \<and>
   thrown (resolveNextStateFromAction ex_number ex_context ex_with_schema [ex_fresh] (ex_req ''hi'') 0
      (Some (ex_action ''info'' (Trigger ''help'')))) = Some (UnknownActionName ''root'' (Some ''info''))"
  using trigger_next_state [of 0 "[ex_fresh]" ex_plain ex_root "ex_action ''greet'' (Trigger ''help'')"
          "''help''" ex_number ex_context "ex_req ''hi''"]
        trigger_next_state [of 0 "[ex_fresh]" ex_with_schema ex_root
          "ex_action ''greet'' (Trigger ''gone'')" "''gone''" ex_number ex_context "ex_req ''hi''"]
        trigger_next_state [of 0 "[ex_fresh]" ex_with_schema ex_root
          "ex_action ''greet'' (Trigger ''help'')" "''help''" ex_number ex_context "ex_req ''hi''"]
        trigger_next_state [of 0 "[ex_fresh\<lparr>flow := Some ''help''\<rparr>]" ex_with_schema ex_help
          "ex_action ''info'' (Trigger ''root'')" "''root''" ex_number ex_context "ex_req ''hi''"]
        trigger_next_state [of 0 "[ex_fresh]" ex_with_schema ex_root
          "ex_action ''info'' (Trigger ''help'')" "''help''" ex_number ex_context "ex_req ''hi''"]
  by (simp add: ex_defs getCurrentFlow_def)

subsection \<open>What a call does to its argument\<close>

text \<open>
  C2. The claim is that \<^verbatim>\<open>resolveNextStateFromAction\<close> never changes the state object it
  is given. On a new cookie, whose \<open>flow\<close> is null, and the Reply of the root's first
  step, the object passed in has \<open>flow = ''root''\<close> after the call: \<^verbatim>\<open>updateContext\<close>
  assigns \<^verbatim>\<open>state.flow = flow.name\<close> on its argument before it copies it.
\<close>

theorem next_state_writes_flow_of_its_input:
  "flow ([ex_fresh] ! 0) = None \<and>
   flow (fst (resolveNextStateFromAction ex_number ex_context ex_plain [ex_fresh] (ex_req ''hi'') 0
                (Some (ex_action ''greet'' Reply))) ! 0) = Some ''root''"
  by (simp add: ex_defs next_defs getCurrentFlow_def)

text \<open>
  That assignment is all a call does to the store it finds: every other object is as
  it was; the argument is as it was or differs in \<open>flow\<close> alone, which was unset and is
  now the root's name; and when the call throws, the argument is as it was.
\<close>

lemma unset_flow_is_root:
  "getCurrentFlow c s = Inr fl \<Longrightarrow> flow_unset (flow s) \<Longrightarrow> fl = root c"
  by (simp add: getCurrentFlow_def split: option.splits)

lemma next_state_frame:
  assumes valid: "state < length h"
    and call: "resolveNextStateFromAction N G c h req state a = (h', r)"
  shows "(\<forall>i<length h. i \<noteq> state \<longrightarrow> h' ! i = h ! i) \<and>
         (h' ! state = h ! state \<or>
          flow_unset (flow (h ! state)) \<and> h' ! state = (h ! state)\<lparr>flow := Some (name (root c))\<rparr>) \<and>
         (\<forall>e. r = Inl e \<longrightarrow> h' ! state = h ! state)"
proof (cases "getCurrentFlow c (h ! state)")
  case (Inl e)
  with call show ?thesis by (auto simp: resolveNextStateFromAction_def)
next
  case (Inr fl)
  note root = unset_flow_is_root [OF Inr]
  show ?thesis
  proof (cases a)
    case None
    with valid call Inr show ?thesis by (auto simp: next_defs)
  next
    case (Some act)
    show ?thesis
    proof (cases "constructor act")
      case Message
      with valid call Inr Some root show ?thesis by (auto simp: next_defs split: if_splits)
    next
      case Reply
      with valid call Inr Some root show ?thesis by (auto simp: next_defs split: if_splits)
    next
      case (Exit b)
      with valid call Inr Some root show ?thesis by (auto simp: next_defs split: if_splits)
    next
      case (Trigger t)
      with valid call Inr Some root show ?thesis
        by (auto simp: next_defs schema_has_def split: if_splits option.splits bool.splits)
    next
      case (Question q)
      with valid call Inr Some root show ?thesis by (auto simp: next_defs split: if_splits)
    qed
  qed
qed

subsection \<open>The interaction history\<close>

text \<open>One call: the history of the returned state starts with the history of the argument.\<close>

lemma step_history:
  assumes "state < length h"
    and "resolveNextStateFromAction N G c h req state a = (h', Inr state')"
  shows "state' < length h' \<and>
         prefix (interactionContext (h ! state)) (interactionContext (h' ! state'))"
  using assms
  by (auto simp: next_defs schema_has_def
      split: sum.splits option.splits Constructor.splits if_splits bool.splits)

text \<open>
  C6. Over any sequence of calls of \<^verbatim>\<open>resolveNextStateFromAction\<close>, each on the state
  the call before returned, the interaction history of the state returned last extends
  the history of the first state: it is at least as long, and every entry of the first
  history is at its index, so nothing was removed or reordered.
\<close>

theorem interaction_history_extends:
  assumes "state < length h"
    and "returned (run N G c h state calls) = Some s'"
  shows "prefix (interactionContext (h ! state)) (interactionContext s') \<and>
         length (interactionContext (h ! state)) \<le> length (interactionContext s') \<and>
         (\<forall>i < length (interactionContext (h ! state)).
            interactionContext s' ! i = interactionContext (h ! state) ! i)"
proof -
  have "prefix (interactionContext (h ! state)) (interactionContext s')"
    using assms
  proof (induction calls arbitrary: h state)
    case Nil
    then show ?case by simp
  next
    case (Cons call calls)
    obtain req a where call: "call = (req, a)" by (cases call)
    obtain h1 r1 where step: "resolveNextStateFromAction N G c h req state a = (h1, r1)"
      by (cases "resolveNextStateFromAction N G c h req state a")
    show ?case
    proof (cases r1)
      case (Inl e)
      with Cons.prems call step show ?thesis by simp
    next
      case (Inr state1)
      with step have step': "resolveNextStateFromAction N G c h req state a = (h1, Inr state1)"
        by simp
      from step_history [OF Cons.prems(1) step']
      have valid: "state1 < length h1"
        and ext: "prefix (interactionContext (h ! state)) (interactionContext (h1 ! state1))"
        by simp_all
      from Cons.prems(2) call step Inr
      have "returned (run N G c h1 state1 calls) = Some s'" by simp
      with Cons.IH [OF valid]
      have "prefix (interactionContext (h1 ! state1)) (interactionContext s')" .
      with ext show ?thesis by (rule prefix_order.trans)
    qed
  qed
  then show ?thesis
    by (auto simp: prefix_def nth_append)
qed

text \<open>
  A cookie with one entry in its history, then the two replies of the two-step root
  flow: the entry is still first, two entries follow.
\<close>

theorem interaction_history_extends_witness:
  "(0::nat) < length [ex_fresh\<lparr>interactionContext := [ex_context (ex_action ''old'' Reply)]\<rparr>] \<and>
   map_option interactionContext
     (returned (run ex_number ex_context ex_plain_long
        [ex_fresh\<lparr>interactionContext := [ex_context (ex_action ''old'' Reply)]\<rparr>] 0
        [(ex_req ''hi'', Some (ex_action ''greet'' Reply)),
         (ex_req ''hi'', Some (ex_action ''bye'' Reply))])) =
     Some [\<lparr>props = [], messageSid = None, flowName = None\<rparr>,
           \<lparr>props = [], messageSid = None, flowName = Some ''root''\<rparr>,
           \<lparr>props = [], messageSid = None, flowName = Some ''root''\<rparr>] \<and>
   prefix (interactionContext
             ([ex_fresh\<lparr>interactionContext := [ex_context (ex_action ''old'' Reply)]\<rparr>] ! 0))
     [\<lparr>props = [], messageSid = None, flowName = None\<rparr>,
      \<lparr>props = [], messageSid = None, flowName = Some ''root''\<rparr>,
      \<lparr>props = [], messageSid = None, flowName = Some ''root''\<rparr>]"
  using interaction_history_extends
    [of 0 "[ex_fresh\<lparr>interactionContext := [ex_context (ex_action ''old'' Reply)]\<rparr>]"
        ex_number ex_context ex_plain_long
        "[(ex_req ''hi'', Some (ex_action ''greet'' Reply)),
          (ex_req ''hi'', Some (ex_action ''bye'' Reply))]"]
  by (simp add: ex_defs next_defs getCurrentFlow_def)

end
